theory Spec2Isabelle
  imports Main
begin

section \<open>JavaScript values the client code branches on\<close>

text \<open>
  A parameter typed \<^verbatim>\<open>string | null\<close> (or optional) is a \<open>string option\<close>; \<open>None\<close> is
  \<^verbatim>\<open>null\<close>/\<^verbatim>\<open>undefined\<close>. The guards of the hooks test truthiness: \<^verbatim>\<open>null\<close> and the empty
  string are falsy.
\<close>

definition truthy :: "string option \<Rightarrow> bool" where
  "truthy s = (case s of None \<Rightarrow> False | Some t \<Rightarrow> t \<noteq> [])"

definition truthy_str :: "string \<Rightarrow> bool" where
  "truthy_str s = (s \<noteq> [])"

text \<open>Exceptions thrown by the client code: \<^verbatim>\<open>HttpError(status, message)\<close>, a plain
  \<^verbatim>\<open>Error(message)\<close>, the \<^verbatim>\<open>TypeError\<close> of a property read on \<^verbatim>\<open>undefined\<close> or of a call of
  a missing method, and the \<^verbatim>\<open>SyntaxError\<close> of \<^verbatim>\<open>JSON.parse\<close>.\<close>

datatype exn = HttpError nat string | JsError string | TypeError | SyntaxError

text \<open>The \<^verbatim>\<open>detail\<close> field of an error body: the generated type says a list of validation
  errors (each with a \<^verbatim>\<open>msg\<close>), the server also sends a plain string.\<close>

datatype error_detail = DetailString string | DetailList "string list"

text \<open>A truthy \<^verbatim>\<open>res.error\<close>: the parsed body, an object with or without \<^verbatim>\<open>detail\<close>, or the
  text of a body that is not JSON. A string has no \<^verbatim>\<open>detail\<close> property.\<close>

datatype api_error = ErrorText string | ErrorObject "error_detail option"

fun detail :: "api_error \<Rightarrow> error_detail option" where
  "detail (ErrorText s) = None"
| "detail (ErrorObject d) = d"

text \<open>The result of \<^verbatim>\<open>api.GET\<close>/\<^verbatim>\<open>api.POST\<close>: \<^verbatim>\<open>{data, error, response}\<close>; \<open>None\<close> is
  \<^verbatim>\<open>undefined\<close>, and for \<^verbatim>\<open>error\<close> any falsy value.\<close>

record 'd fetch_result =
  res_data :: "'d option"
  res_error :: "api_error option"
  res_status :: nat

datatype http_call = GET string | POST string

datatype notification_type = NSuccess | NInfo | NWarning | NError

record notification =
  ntype :: notification_type
  message :: string

text \<open>Everything a call of a hook can touch: the requests sent through the client, the
  notifications emitted, the files handed to \<^verbatim>\<open>saveAs\<close>, the calls of a refetch callback
  and the browser's local storage.\<close>

record world =
  http_calls :: "http_call list"
  notifications :: "notification list"
  saved_files :: "string list"
  refetches :: nat
  local_storage :: "string \<rightharpoonup> string"

definition api_call :: "(http_call \<Rightarrow> 'd fetch_result) \<Rightarrow> http_call \<Rightarrow> world \<Rightarrow> 'd fetch_result \<times> world" where
  "api_call srv c w = (srv c, w\<lparr>http_calls := http_calls w @ [c]\<rparr>)"

definition notify :: "notification_type \<Rightarrow> string \<Rightarrow> world \<Rightarrow> world" where
  "notify t m w = w\<lparr>notifications := notifications w @ [\<lparr>ntype = t, message = m\<rparr>]\<rparr>"

definition saveAs :: "string \<Rightarrow> world \<Rightarrow> world" where
  "saveAs name w = w\<lparr>saved_files := saved_files w @ [name]\<rparr>"

definition reFetch :: "world \<Rightarrow> world" where
  "reFetch w = w\<lparr>refetches := Suc (refetches w)\<rparr>"

text \<open>JavaScript's string conversions used on error bodies. An object converts to
  \<^verbatim>\<open>[object Object]\<close>; an array converts to its elements joined by a comma.\<close>

fun join :: "string \<Rightarrow> string list \<Rightarrow> string" where
  "join sep [] = []"
| "join sep [x] = x"
| "join sep (x # y # ys) = x @ sep @ join sep (y # ys)"

definition object_toString :: string where
  "object_toString = ''[object Object]''"

text \<open>\<^verbatim>\<open>res.error.toString()\<close>: a string is itself.\<close>

fun error_toString :: "api_error \<Rightarrow> string" where
  "error_toString (ErrorText s) = s"
| "error_toString (ErrorObject d) = object_toString"

text \<open>\<^verbatim>\<open>res.error.detail + ''\<close>\<close>

definition detail_plus_empty :: "error_detail option \<Rightarrow> string" where
  "detail_plus_empty d =
     (case d of
        None \<Rightarrow> ''undefined''
      | Some (DetailString s) \<Rightarrow> s
      | Some (DetailList l) \<Rightarrow> join '','' (map (\<lambda>_. object_toString) l))"

text \<open>\<^verbatim>\<open>res.error.detail ? res.error.detail?.map((d) => d.msg).join('; ') : res.error.toString()\<close>:
  a non-empty string is truthy and has no \<^verbatim>\<open>map\<close>.\<close>

definition detail_messages :: "api_error \<Rightarrow> exn + string" where
  "detail_messages e =
     (case detail e of
        None \<Rightarrow> Inr (error_toString e)
      | Some (DetailString s) \<Rightarrow> (if s = [] then Inr (error_toString e) else Inl TypeError)
      | Some (DetailList l) \<Rightarrow> Inr (join ''; '' l))"

section \<open>Request headers and the auth middleware\<close>

text \<open>The \<^verbatim>\<open>Headers\<close> object of a request: names are case-insensitive, so the map is keyed by
  the lower-cased name. \<^verbatim>\<open>get\<close> answers \<^verbatim>\<open>null\<close> (\<open>None\<close>) for a header that is not set.\<close>

definition lower_char :: "char \<Rightarrow> char" where
  "lower_char c = (let n = (of_char c :: nat) in if 65 \<le> n \<and> n \<le> 90 then char_of (n + 32) else c)"

definition header_name :: "string \<Rightarrow> string" where
  "header_name = map lower_char"

type_synonym headers = "string \<rightharpoonup> string"

definition headers_get :: "headers \<Rightarrow> string \<Rightarrow> string option" where
  "headers_get h n = h (header_name n)"

definition headers_set :: "headers \<Rightarrow> string \<Rightarrow> string \<Rightarrow> headers" where
  "headers_set h n v = h(header_name n \<mapsto> v)"

text \<open>\<^verbatim>\<open>authenticatedUserJSON ? JSON.parse(authenticatedUserJSON) : null\<close>. \<^verbatim>\<open>JSON.parse\<close> and
  \<^verbatim>\<open>getAuthHeaders\<close> (core/auth) are parameters: \<open>parse\<close> raises or answers a value that is
  falsy (\<open>None\<close>) or truthy; \<open>getAuthHeaders\<close> answers nothing or the entries of its
  \<^verbatim>\<open>headers\<close> object, in the order \<^verbatim>\<open>toPairs\<close> lists them.\<close>

definition authenticatedUser :: "(string \<Rightarrow> exn + 'u option) \<Rightarrow> (string \<rightharpoonup> string) \<Rightarrow> exn + 'u option" where
  "authenticatedUser parse ls =
     (if truthy (ls ''activeTigger.auth'') then
        (case ls ''activeTigger.auth'' of None \<Rightarrow> Inr None | Some s \<Rightarrow> parse s)
      else Inr None)"

text \<open>The middleware of the client that checks \<^verbatim>\<open>request.headers.get(header) === null\<close>
  before it sets a header. The result \<open>None\<close> is \<^verbatim>\<open>undefined\<close>: the request goes on as it
  is.\<close>

definition set_if_unset :: "headers \<Rightarrow> string \<times> string \<Rightarrow> headers" where
  "set_if_unset h p = (if headers_get h (fst p) = None then headers_set h (fst p) (snd p) else h)"

definition onRequest ::
  "(string \<Rightarrow> exn + 'u option) \<Rightarrow> ('u \<Rightarrow> (string \<times> string) list option) \<Rightarrow>
   (string \<rightharpoonup> string) \<Rightarrow> headers \<Rightarrow> exn + headers option" where
  "onRequest parse getAuthHeaders ls request =
     (case authenticatedUser parse ls of
        Inl e \<Rightarrow> Inl e
      | Inr None \<Rightarrow> Inr None
      | Inr (Some u) \<Rightarrow>
          (case getAuthHeaders u of
             None \<Rightarrow> Inr (Some request)
           | Some pairs \<Rightarrow> Inr (Some (foldl set_if_unset request pairs))))"

text \<open>The middleware of \<^verbatim>\<open>src/frontend/src/core/api.ts\<close>, which sets every auth header:
  \<^verbatim>\<open>toPairs(authHeaders.headers).map(([header, value]) => request.headers.set(header, value))\<close>.\<close>

definition set_always :: "headers \<Rightarrow> string \<times> string \<Rightarrow> headers" where
  "set_always h p = headers_set h (fst p) (snd p)"

definition onRequest_core ::
  "(string \<Rightarrow> exn + 'u option) \<Rightarrow> ('u \<Rightarrow> (string \<times> string) list option) \<Rightarrow>
   (string \<rightharpoonup> string) \<Rightarrow> headers \<Rightarrow> exn + headers option" where
  "onRequest_core parse getAuthHeaders ls request =
     (case authenticatedUser parse ls of
        Inl e \<Rightarrow> Inl e
      | Inr None \<Rightarrow> Inr None
      | Inr (Some u) \<Rightarrow>
          (case getAuthHeaders u of
             None \<Rightarrow> Inr (Some request)
           | Some pairs \<Rightarrow> Inr (Some (foldl set_always request pairs))))"

text \<open>The headers the request is sent with: those the middleware returned, or the request's
  own when the middleware returned \<^verbatim>\<open>undefined\<close>.\<close>

definition sent_headers :: "exn + headers option \<Rightarrow> headers \<Rightarrow> exn + headers" where
  "sent_headers r request =
     (case r of Inl e \<Rightarrow> Inl e | Inr None \<Rightarrow> Inr request | Inr (Some h) \<Rightarrow> Inr h)"

text \<open>Modelled from the spec: the Auth Header Provider \<^verbatim>\<open>getAuthHeaders\<close> of core/auth, which is
  not under src/ ("if present, returns a header map containing the bearer token"), and a
  stored credential \<^verbatim>\<open>{username, token}\<close> already parsed.\<close>

record credential =
  username :: string
  token :: string

definition getAuthHeaders_spec :: "credential \<Rightarrow> (string \<times> string) list option" where
  "getAuthHeaders_spec u = Some [(''Authorization'', ''Bearer '' @ token u)]"

section \<open>login and logout\<close>

text \<open>\<^verbatim>\<open>login\<close>: \<^verbatim>\<open>if (res.data && !res.error) return res.data; else throw new
  HttpError(res.response.status, res.error.detail + '')\<close>. Reading \<^verbatim>\<open>detail\<close> of an
  \<^verbatim>\<open>undefined\<close> error is a \<^verbatim>\<open>TypeError\<close>.\<close>

definition login :: "(http_call \<Rightarrow> 'd fetch_result) \<Rightarrow> world \<Rightarrow> (exn + 'd) \<times> world" where
  "login srv w =
     (let (res, w1) = api_call srv (POST ''/token'') w in
      (case (res_data res, res_error res) of
         (Some d, None) \<Rightarrow> (Inr d, w1)
       | (_, Some e) \<Rightarrow> (Inl (HttpError (res_status res) (detail_plus_empty (detail e))), w1)
       | (None, None) \<Rightarrow> (Inl TypeError, w1)))"

text \<open>\<^verbatim>\<open>logout\<close>: \<^verbatim>\<open>if (res.response.status === 200) return true; else throw new
  HttpError(res.response.status, 'could not logout')\<close>.\<close>

definition logout :: "(http_call \<Rightarrow> 'd fetch_result) \<Rightarrow> world \<Rightarrow> (exn + bool) \<times> world" where
  "logout srv w =
     (let (res, w1) = api_call srv (POST ''/users/disconnect'') w in
      if res_status res = 200 then (Inr True, w1)
      else (Inl (HttpError (res_status res) ''could not logout''), w1))"

text \<open>Modelled from the spec: the logout flow of the auth context (core/auth, not under
  src/), the caller of \<^verbatim>\<open>logout\<close>: "Logout request returning HTTP 200 clears local state; any
  non-200 response raises an error without clearing it". The local state is the one
  local-storage key holding \<^verbatim>\<open>{username, token}\<close>.\<close>

definition auth_logout :: "(http_call \<Rightarrow> 'd fetch_result) \<Rightarrow> world \<Rightarrow> (exn + unit) \<times> world" where
  "auth_logout srv w =
     (case logout srv w of
        (Inr _, w1) \<Rightarrow> (Inr (), w1\<lparr>local_storage := (local_storage w1)(''activeTigger.auth'' := None)\<rparr>)
      | (Inl e, w1) \<Rightarrow> (Inl e, w1))"

section \<open>Domain operation hooks\<close>

text \<open>What the function returned by a hook answers: \<^verbatim>\<open>true\<close>, \<^verbatim>\<open>false\<close>, \<^verbatim>\<open>null\<close>,
  \<^verbatim>\<open>undefined\<close> (also a function that ends without \<^verbatim>\<open>return\<close>) or a payload taken from
  \<^verbatim>\<open>res.data\<close>.\<close>

datatype 'd ret = RetTrue | RetFalse | RetNull | RetUndefined | RetData 'd

definition falsy :: "'d ret \<Rightarrow> bool" where
  "falsy r = (r = RetFalse \<or> r = RetNull \<or> r = RetUndefined)"

definition ret_data :: "'d option \<Rightarrow> 'd ret" where
  "ret_data d = (case d of None \<Rightarrow> RetUndefined | Some x \<Rightarrow> RetData x)"

text \<open>A JavaScript object (form parameters) as its entries; any object, also the empty
  one, is truthy.\<close>

type_synonym js_object = "(string \<times> string) list"

record simple_model_form =
  sm_features :: "string list option"
  sm_model :: "string option"
  sm_params :: "js_object option"

record projection_form =
  pr_method :: string
  pr_features :: "string list option"
  pr_params :: "js_object option"

type_synonym 'd hook_result = "(exn + 'd ret) \<times> world"
type_synonym 'd server = "http_call \<Rightarrow> 'd fetch_result"

definition useCreateProject :: "'d server \<Rightarrow> world \<Rightarrow> 'd hook_result" where
  "useCreateProject srv w =
     (case api_call srv (POST ''/projects/new'') w of (res, w1) \<Rightarrow>
        (case res_error res of
           None \<Rightarrow> (Inr RetUndefined, notify NSuccess ''Project created'' w1)
         | Some e \<Rightarrow>
             (case detail_messages e of
                Inl x \<Rightarrow> (Inl x, w1)
              | Inr m \<Rightarrow> (Inl (JsError m), w1))))"

definition useCreateTestSet :: "'d server \<Rightarrow> string \<Rightarrow> world \<Rightarrow> 'd hook_result" where
  "useCreateTestSet srv projectSlug w =
     (case api_call srv (POST ''/projects/testset'') w of (res, w1) \<Rightarrow>
        (case res_error res of
           None \<Rightarrow> (Inr RetUndefined, notify NSuccess ''Test data set uploaded'' w1)
         | Some e \<Rightarrow>
             (case detail_messages e of
                Inl x \<Rightarrow> (Inl x, w1)
              | Inr m \<Rightarrow> (Inl (JsError m), w1))))"

definition useDeleteProject :: "'d server \<Rightarrow> string \<Rightarrow> world \<Rightarrow> 'd hook_result" where
  "useDeleteProject srv projectSlug w =
     (case api_call srv (POST ''/projects/delete'') w of (res, w1) \<Rightarrow>
        (Inr RetUndefined,
         if res_error res = None then notify NSuccess ''Project deleted'' w1 else w1))"

definition useStatistics :: "'d server \<Rightarrow> string option \<Rightarrow> string option \<Rightarrow> world \<Rightarrow> 'd hook_result" where
  "useStatistics srv projectSlug currentScheme w =
     (if truthy projectSlug \<and> truthy currentScheme then
        (case api_call srv (GET ''/projects/{project_slug}/statistics'') w of (res, w1) \<Rightarrow>
           (Inr (ret_data (res_data res)), w1))
      else (Inr RetNull, w))"

definition useProject :: "'d server \<Rightarrow> string option \<Rightarrow> world \<Rightarrow> 'd hook_result" where
  "useProject srv projectSlug w =
     (if truthy projectSlug then
        (case api_call srv (GET ''/projects/{project_slug}'') w of (res, w1) \<Rightarrow>
           (Inr (ret_data (res_data res)), w1))
      else (Inr RetNull, w))"

definition useDeleteScheme :: "'d server \<Rightarrow> string \<Rightarrow> string option \<Rightarrow> world \<Rightarrow> 'd hook_result" where
  "useDeleteScheme srv projectSlug schemeName w =
     (if truthy schemeName then
        (case api_call srv (POST ''/schemes/{action}'') w of (res, w1) \<Rightarrow>
           (Inr RetUndefined,
            if res_error res = None then notify NSuccess ''Scheme deleted'' w1 else w1))
      else (Inr RetUndefined, w))"

definition useAddScheme :: "'d server \<Rightarrow> string \<Rightarrow> string \<Rightarrow> world \<Rightarrow> 'd hook_result" where
  "useAddScheme srv projectSlug schemeName w =
     (if truthy_str schemeName then
        (case api_call srv (POST ''/schemes/{action}'') w of (res, w1) \<Rightarrow>
           (Inr RetTrue,
            if res_error res = None then notify NSuccess ''Scheme add'' w1 else w1))
      else (Inr RetNull, w))"

text \<open>\<^verbatim>\<open>if (!featureName) featureName = featureType\<close> only changes the body sent; the guard
  is \<^verbatim>\<open>featureType && featureParameters && projectSlug\<close>.\<close>

definition useAddFeature ::
  "'d server \<Rightarrow> string option \<Rightarrow> string \<Rightarrow> string \<Rightarrow> js_object option \<Rightarrow> world \<Rightarrow> 'd hook_result" where
  "useAddFeature srv projectSlug featureType featureName featureParameters w =
     (if truthy_str featureType \<and> featureParameters \<noteq> None \<and> truthy projectSlug then
        (case api_call srv (POST ''/features/add'') w of (res, w1) \<Rightarrow>
           (Inr RetTrue,
            if res_error res = None then notify NWarning ''Features are under computation...'' w1
            else w1))
      else (Inr RetFalse, w))"

text \<open>\<^verbatim>\<open>useAddFeature\<close> of \<^verbatim>\<open>src/frontend/src/core/api.ts\<close>: a falsy \<^verbatim>\<open>featureParameters\<close>
  becomes \<^verbatim>\<open>{}\<close>, which is truthy, so the guard \<^verbatim>\<open>featureType && featureParameters\<close> is
  \<^verbatim>\<open>featureType\<close>; the function ends without \<^verbatim>\<open>return\<close> when the guard fails.\<close>

definition useAddFeature_core ::
  "'d server \<Rightarrow> string \<Rightarrow> string \<Rightarrow> string \<Rightarrow> js_object option \<Rightarrow> world \<Rightarrow> 'd hook_result" where
  "useAddFeature_core srv projectSlug featureType featureName featureParameters w =
     (let featureParameters' = (case featureParameters of None \<Rightarrow> Some [] | Some p \<Rightarrow> Some p) in
      if truthy_str featureType \<and> featureParameters' \<noteq> None then
        (case api_call srv (POST ''/features/add'') w of (res, w1) \<Rightarrow>
           (Inr RetTrue,
            if res_error res = None then notify NWarning ''Features are under computation...'' w1
            else w1))
      else (Inr RetUndefined, w))"

definition useDeleteFeature :: "'d server \<Rightarrow> string option \<Rightarrow> string option \<Rightarrow> world \<Rightarrow> 'd hook_result" where
  "useDeleteFeature srv projectSlug featureName w =
     (if truthy featureName \<and> truthy projectSlug then
        (case api_call srv (POST ''/features/delete'') w of (res, w1) \<Rightarrow>
           (Inr RetTrue,
            if res_error res = None then notify NSuccess ''Features deleted'' w1 else w1))
      else (Inr RetFalse, w))"

definition useGetNextElementId :: "'d server \<Rightarrow> string option \<Rightarrow> string option \<Rightarrow> world \<Rightarrow> 'd hook_result" where
  "useGetNextElementId srv projectSlug currentScheme w =
     (if truthy projectSlug \<and> truthy currentScheme then
        (case api_call srv (POST ''/elements/next'') w of (res, w1) \<Rightarrow>
           (Inr (ret_data (res_data res)), w1))
      else (Inr RetNull, notify NError ''Select a project/scheme to get elements'' w))"

definition useGetElementById :: "'d server \<Rightarrow> string option \<Rightarrow> string option \<Rightarrow> world \<Rightarrow> 'd hook_result" where
  "useGetElementById srv projectSlug currentScheme w =
     (if truthy projectSlug \<and> truthy currentScheme then
        (case api_call srv (GET ''/elements/{element_id}'') w of (res, w1) \<Rightarrow>
           (if res_error res = None then (Inr (ret_data (res_data res)), w1)
            else (Inr RetNull, w1)))
      else (Inr RetNull, w))"

definition useAddAnnotation :: "'d server \<Rightarrow> string option \<Rightarrow> string option \<Rightarrow> world \<Rightarrow> 'd hook_result" where
  "useAddAnnotation srv projectSlug scheme w =
     (if truthy projectSlug \<and> truthy scheme then
        (case api_call srv (POST ''/annotation/{action}'') w of (res, w1) \<Rightarrow> (Inr RetTrue, w1))
      else (Inr RetFalse, w))"

definition useAddTableAnnotations ::
  "'d server \<Rightarrow> string option \<Rightarrow> string option \<Rightarrow> string option \<Rightarrow> world \<Rightarrow> 'd hook_result" where
  "useAddTableAnnotations srv projectSlug scheme dataset w =
     (if truthy projectSlug \<and> truthy scheme then
        (case api_call srv (POST ''/annotation/table'') w of (res, w1) \<Rightarrow>
           (Inr RetTrue,
            if res_error res = None then notify NSuccess ''Annotations added'' w1 else w1))
      else (Inr RetFalse, w))"

definition useAddLabel :: "'d server \<Rightarrow> string option \<Rightarrow> string option \<Rightarrow> string \<Rightarrow> world \<Rightarrow> 'd hook_result" where
  "useAddLabel srv projectSlug scheme label w =
     (if truthy projectSlug \<and> truthy scheme then
        (case api_call srv (POST ''/schemes/label/add'') w of (res, w1) \<Rightarrow>
           (Inr RetTrue,
            if res_error res = None then notify NSuccess ''New label created'' w1 else w1))
      else (Inr RetFalse, w))"

text \<open>\<^verbatim>\<open>useAddLabel\<close> of \<^verbatim>\<open>src/frontend/src/core/api.ts\<close>, whose parameters are plain strings
  and which has no guard.\<close>

definition useAddLabel_core :: "'d server \<Rightarrow> string \<Rightarrow> string \<Rightarrow> string \<Rightarrow> world \<Rightarrow> 'd hook_result" where
  "useAddLabel_core srv projectSlug scheme label w =
     (case api_call srv (POST ''/schemes/label/add'') w of (res, w1) \<Rightarrow>
        (Inr RetTrue,
         if res_error res = None then notify NSuccess ''New label created'' w1 else w1))"

definition useDeleteLabel :: "'d server \<Rightarrow> string option \<Rightarrow> string option \<Rightarrow> string \<Rightarrow> world \<Rightarrow> 'd hook_result" where
  "useDeleteLabel srv projectSlug scheme label w =
     (if truthy projectSlug \<and> truthy scheme then
        (case api_call srv (POST ''/schemes/label/delete'') w of (res, w1) \<Rightarrow>
           (Inr RetTrue,
            if res_error res = None then notify NSuccess ''Label deleted'' w1 else w1))
      else (Inr RetFalse, w))"

definition useRenameLabel :: "'d server \<Rightarrow> string option \<Rightarrow> string option \<Rightarrow> world \<Rightarrow> 'd hook_result" where
  "useRenameLabel srv projectSlug scheme w =
     (if truthy projectSlug \<and> truthy scheme then
        (case api_call srv (POST ''/schemes/label/rename'') w of (res, w1) \<Rightarrow>
           (Inr RetTrue,
            if res_error res = None then notify NSuccess ''Label renamed'' w1
            else notify NError ''Error when renamed'' w1))
      else (Inr RetTrue, w))"

definition useUpdateSimpleModel ::
  "'d server \<Rightarrow> string option \<Rightarrow> string option \<Rightarrow> simple_model_form \<Rightarrow> world \<Rightarrow> 'd hook_result" where
  "useUpdateSimpleModel srv projectSlug scheme formData w =
     (if truthy projectSlug \<and> sm_features formData \<noteq> None \<and> truthy scheme
         \<and> truthy (sm_model formData) \<and> sm_params formData \<noteq> None then
        (case api_call srv (POST ''/models/simplemodel'') w of (res, w1) \<Rightarrow>
           (Inr RetTrue,
            if res_error res = None then notify NWarning ''Model under training'' w1 else w1))
      else (Inr RetTrue, w))"

text \<open>\<^verbatim>\<open>if (!res.error) return res.data.auth\<close>: reading \<^verbatim>\<open>auth\<close> of an \<^verbatim>\<open>undefined\<close> payload is a
  \<^verbatim>\<open>TypeError\<close>.\<close>

definition useUsersAuth :: "'d server \<Rightarrow> string option \<Rightarrow> world \<Rightarrow> 'd hook_result" where
  "useUsersAuth srv projectSlug w =
     (if truthy projectSlug then
        (case api_call srv (GET ''/auth/project'') w of (res, w1) \<Rightarrow>
           (if res_error res = None then
              (case res_data res of None \<Rightarrow> (Inl TypeError, w1) | Some d \<Rightarrow> (Inr (RetData d), w1))
            else (Inr RetNull, w1)))
      else (Inr RetNull, w))"

definition useDeleteUserAuthProject :: "'d server \<Rightarrow> string option \<Rightarrow> string option \<Rightarrow> world \<Rightarrow> 'd hook_result" where
  "useDeleteUserAuthProject srv projectSlug user w =
     (if truthy projectSlug \<and> truthy user then
        (case api_call srv (POST ''/users/auth/{action}'') w of (res, w1) \<Rightarrow>
           (Inr RetTrue,
            reFetch (if res_error res = None then notify NSuccess ''Auth deleted for user'' w1 else w1)))
      else (Inr RetNull, w))"

definition useCreateUser :: "'d server \<Rightarrow> world \<Rightarrow> 'd hook_result" where
  "useCreateUser srv w =
     (case api_call srv (POST ''/users/create'') w of (res, w1) \<Rightarrow>
        (Inr RetTrue,
         reFetch (if res_error res = None then notify NSuccess ''User created'' w1 else w1)))"

definition useDeleteUser :: "'d server \<Rightarrow> string option \<Rightarrow> world \<Rightarrow> 'd hook_result" where
  "useDeleteUser srv user w =
     (if truthy user then
        (case api_call srv (POST ''/users/delete'') w of (res, w1) \<Rightarrow>
           (Inr RetTrue,
            reFetch (if res_error res = None then notify NSuccess ''User deleted'' w1 else w1)))
      else (Inr RetNull, w))"

definition useAddUserAuthProject :: "'d server \<Rightarrow> string option \<Rightarrow> string \<Rightarrow> world \<Rightarrow> 'd hook_result" where
  "useAddUserAuthProject srv projectSlug user w =
     (if truthy projectSlug \<and> truthy_str user then
        (case api_call srv (POST ''/users/auth/{action}'') w of (res, w1) \<Rightarrow>
           (Inr RetTrue,
            reFetch (if res_error res = None then notify NSuccess ''Auth deleted for user'' w1 else w1)))
      else (Inr RetNull, w))"

definition useTrainBertModel ::
  "'d server \<Rightarrow> string option \<Rightarrow> string option \<Rightarrow> js_object option \<Rightarrow> world \<Rightarrow> 'd hook_result" where
  "useTrainBertModel srv projectSlug scheme dataForm w =
     (if truthy projectSlug \<and> truthy scheme \<and> dataForm \<noteq> None then
        (case api_call srv (POST ''/models/bert/train'') w of (res, w1) \<Rightarrow>
           (Inr RetTrue,
            if res_error res = None then notify NWarning ''Starting bertmodel training'' w1 else w1))
      else (Inr RetNull, w))"

definition useRenameBertModel :: "'d server \<Rightarrow> string option \<Rightarrow> world \<Rightarrow> 'd hook_result" where
  "useRenameBertModel srv projectSlug w =
     (if truthy projectSlug then
        (case api_call srv (POST ''/models/bert/rename'') w of (res, w1) \<Rightarrow>
           (Inr RetTrue,
            if res_error res = None then notify NSuccess ''Model renamed'' w1 else w1))
      else (Inr RetNull, w))"

definition useDeleteBertModel :: "'d server \<Rightarrow> string option \<Rightarrow> world \<Rightarrow> 'd hook_result" where
  "useDeleteBertModel srv projectSlug w =
     (if truthy projectSlug then
        (case api_call srv (POST ''/models/bert/delete'') w of (res, w1) \<Rightarrow>
           (Inr RetTrue,
            if res_error res = None then notify NSuccess ''Model deleted'' w1 else w1))
      else (Inr RetNull, w))"

definition useModelInformations :: "'d server \<Rightarrow> string option \<Rightarrow> string option \<Rightarrow> world \<Rightarrow> 'd hook_result" where
  "useModelInformations srv project_slug model_name w =
     (if truthy model_name \<and> truthy project_slug then
        (case api_call srv (GET ''/models/bert'') w of (res, w1) \<Rightarrow>
           (if res_error res = None then (Inr (ret_data (res_data res)), w1)
            else (Inr RetNull, w1)))
      else (Inr RetNull, w))"

definition useComputeModelPrediction :: "'d server \<Rightarrow> string option \<Rightarrow> world \<Rightarrow> 'd hook_result" where
  "useComputeModelPrediction srv projectSlug w =
     (if truthy projectSlug then
        (case api_call srv (POST ''/models/bert/predict'') w of (res, w1) \<Rightarrow>
           (Inr RetTrue,
            if res_error res = None
            then notify NWarning ''Computing prediction. It can take some time.'' w1
            else w1))
      else (Inr RetNull, w))"

definition useGetFeaturesFile :: "'d server \<Rightarrow> string option \<Rightarrow> string \<Rightarrow> world \<Rightarrow> 'd hook_result" where
  "useGetFeaturesFile srv projectSlug format w =
     (if truthy projectSlug then
        (case api_call srv (GET ''/export/features'') w of (res, w1) \<Rightarrow>
           (Inr RetTrue,
            if res_error res = None
            then saveAs (''features.'' @ format)
                   (notify NSuccess ''Exporting the predictions of the model'' w1)
            else w1))
      else (Inr RetNull, w))"

definition useGetAnnotationsFile :: "'d server \<Rightarrow> string option \<Rightarrow> string \<Rightarrow> world \<Rightarrow> 'd hook_result" where
  "useGetAnnotationsFile srv projectSlug format w =
     (if truthy projectSlug then
        (case api_call srv (GET ''/export/data'') w of (res, w1) \<Rightarrow>
           (Inr RetTrue,
            if res_error res = None
            then saveAs (''annotations.'' @ format)
                   (notify NSuccess ''Exporting the annotated data'' w1)
            else w1))
      else (Inr RetNull, w))"

definition useGetPredictionsFile :: "'d server \<Rightarrow> string option \<Rightarrow> string \<Rightarrow> world \<Rightarrow> 'd hook_result" where
  "useGetPredictionsFile srv projectSlug format w =
     (if truthy projectSlug then
        (case api_call srv (GET ''/export/prediction'') w of (res, w1) \<Rightarrow>
           (Inr RetTrue,
            if res_error res = None
            then saveAs (''predictions.'' @ format)
                   (notify NSuccess ''Exporting the predictions data'' w1)
            else w1))
      else (Inr RetNull, w))"

definition useGetModelUrl :: "'d server \<Rightarrow> string option \<Rightarrow> string option \<Rightarrow> world \<Rightarrow> 'd hook_result" where
  "useGetModelUrl srv projectSlug model w =
     (if truthy projectSlug \<and> truthy model then
        (case api_call srv (GET ''/export/bert'') w of (res, w1) \<Rightarrow>
           (if res_error res = None then (Inr (ret_data (res_data res)), w1)
            else (Inr RetNull, w1)))
      else (Inr RetNull, w))"

definition useUpdateProjection ::
  "'d server \<Rightarrow> string option \<Rightarrow> string option \<Rightarrow> projection_form \<Rightarrow> world \<Rightarrow> 'd hook_result" where
  "useUpdateProjection srv projectSlug scheme formData w =
     (if truthy projectSlug \<and> pr_features formData \<noteq> None \<and> truthy scheme
         \<and> pr_params formData \<noteq> None then
        (case api_call srv (POST ''/elements/projection/compute'') w of (res, w1) \<Rightarrow>
           (Inr RetTrue,
            if res_error res = None then notify NWarning ''Projection under training'' w1 else w1))
      else (Inr RetTrue, w))"

definition useGetProjectionData :: "'d server \<Rightarrow> string option \<Rightarrow> string option \<Rightarrow> world \<Rightarrow> 'd hook_result" where
  "useGetProjectionData srv project_slug scheme w =
     (if truthy scheme \<and> truthy project_slug then
        (case api_call srv (GET ''/elements/projection'') w of (res, w1) \<Rightarrow>
           (if res_error res = None then (Inr (ret_data (res_data res)), w1)
            else (Inr RetNull, w1)))
      else (Inr RetNull, w))"

definition useTableDisagreement :: "'d server \<Rightarrow> string option \<Rightarrow> string option \<Rightarrow> world \<Rightarrow> 'd hook_result" where
  "useTableDisagreement srv project_slug scheme w =
     (if truthy scheme \<and> truthy project_slug then
        (case api_call srv (GET ''/elements/reconciliate'') w of (res, w1) \<Rightarrow>
           (case (res_error res, res_data res) of
              (None, Some d) \<Rightarrow> (Inr (RetData d), w1)
            | _ \<Rightarrow> (Inr RetNull, w1)))
      else (Inr RetNull, w))"

definition useReconciliate :: "'d server \<Rightarrow> string \<Rightarrow> string option \<Rightarrow> world \<Rightarrow> 'd hook_result" where
  "useReconciliate srv projectSlug scheme w =
     (if truthy scheme \<and> truthy_str projectSlug then
        (case api_call srv (POST ''/elements/reconciliate'') w of (res, w1) \<Rightarrow>
           (Inr RetTrue,
            if res_error res = None then notify NSuccess ''Reconciliation done'' w1 else w1))
      else (Inr RetNull, w))"

section \<open>The hooks of the earlier revision\<close>

text \<open>The hooks of \<^verbatim>\<open>src/frontend/src/core/api.ts\<close> that differ from the ones above (the
  others, \<^verbatim>\<open>useCreateProject\<close>, \<^verbatim>\<open>useDeleteProject\<close> and \<^verbatim>\<open>useDeleteScheme\<close>, are the same).
  Their identifiers are typed \<^verbatim>\<open>string\<close>; most have no guard, and a function whose guard
  fails ends without \<^verbatim>\<open>return\<close>.\<close>

definition useStatistics_core :: "'d server \<Rightarrow> string \<Rightarrow> string option \<Rightarrow> world \<Rightarrow> 'd hook_result" where
  "useStatistics_core srv projectSlug currentScheme w =
     (if truthy_str projectSlug then
        (case api_call srv (GET ''/projects/{project_slug}/statistics'') w of (res, w1) \<Rightarrow>
           (Inr (ret_data (res_data res)), w1))
      else (Inr RetUndefined, w))"

definition useProject_core :: "'d server \<Rightarrow> string option \<Rightarrow> world \<Rightarrow> 'd hook_result" where
  "useProject_core srv projectSlug w =
     (if truthy projectSlug then
        (case api_call srv (GET ''/projects/{project_slug}'') w of (res, w1) \<Rightarrow>
           (Inr (ret_data (res_data res)), w1))
      else (Inr RetUndefined, w))"

definition useAddScheme_core :: "'d server \<Rightarrow> string \<Rightarrow> string \<Rightarrow> world \<Rightarrow> 'd hook_result" where
  "useAddScheme_core srv projectSlug schemeName w =
     (if truthy_str schemeName then
        (case api_call srv (POST ''/schemes/{action}'') w of (res, w1) \<Rightarrow>
           (Inr RetTrue,
            if res_error res = None then notify NSuccess ''Scheme add'' w1 else w1))
      else (Inr RetUndefined, w))"

definition useDeleteFeature_core :: "'d server \<Rightarrow> string \<Rightarrow> string option \<Rightarrow> world \<Rightarrow> 'd hook_result" where
  "useDeleteFeature_core srv projectSlug featureName w =
     (if truthy featureName then
        (case api_call srv (POST ''/features/delete'') w of (res, w1) \<Rightarrow>
           (Inr RetTrue,
            if res_error res = None then notify NSuccess ''Features deleted'' w1 else w1))
      else (Inr RetUndefined, w))"

definition useGetNextElementId_core :: "'d server \<Rightarrow> string \<Rightarrow> string \<Rightarrow> world \<Rightarrow> 'd hook_result" where
  "useGetNextElementId_core srv projectSlug currentScheme w =
     (case api_call srv (POST ''/elements/next'') w of (res, w1) \<Rightarrow>
        (Inr (ret_data (res_data res)), w1))"

definition useGetElementById_core :: "'d server \<Rightarrow> string \<Rightarrow> string \<Rightarrow> world \<Rightarrow> 'd hook_result" where
  "useGetElementById_core srv projectSlug currentScheme w =
     (case api_call srv (GET ''/elements/{element_id}'') w of (res, w1) \<Rightarrow>
        (if res_error res = None then (Inr (ret_data (res_data res)), w1)
         else (Inr RetNull, w1)))"

definition useAddAnnotation_core :: "'d server \<Rightarrow> string \<Rightarrow> string \<Rightarrow> world \<Rightarrow> 'd hook_result" where
  "useAddAnnotation_core srv projectSlug scheme w =
     (case api_call srv (POST ''/tags/{action}'') w of (res, w1) \<Rightarrow> (Inr RetTrue, w1))"

definition useDeleteLabel_core :: "'d server \<Rightarrow> string \<Rightarrow> string \<Rightarrow> string \<Rightarrow> world \<Rightarrow> 'd hook_result" where
  "useDeleteLabel_core srv projectSlug scheme label w =
     (case api_call srv (POST ''/schemes/label/delete'') w of (res, w1) \<Rightarrow>
        (Inr RetTrue,
         if res_error res = None then notify NSuccess ''Label deleted'' w1 else w1))"

definition useRenameLabel_core :: "'d server \<Rightarrow> string \<Rightarrow> string \<Rightarrow> world \<Rightarrow> 'd hook_result" where
  "useRenameLabel_core srv projectSlug scheme w =
     (case api_call srv (POST ''/schemes/label/rename'') w of (res, w1) \<Rightarrow>
        (Inr RetTrue,
         if res_error res = None then notify NSuccess ''Label renamed'' w1
         else notify NError ''Error when renamed'' w1))"

text \<open>Two read hooks without identifiers, of the later revision. \<^verbatim>\<open>res.data.users\<close> of an
  \<^verbatim>\<open>undefined\<close> payload is a \<^verbatim>\<open>TypeError\<close>.\<close>

definition useUsers :: "'d server \<Rightarrow> world \<Rightarrow> 'd hook_result" where
  "useUsers srv w =
     (case api_call srv (GET ''/users'') w of (res, w1) \<Rightarrow>
        (if res_error res = None then
           (case res_data res of None \<Rightarrow> (Inl TypeError, w1) | Some d \<Rightarrow> (Inr (RetData d), w1))
         else (Inr RetNull, w1)))"

definition useGetQueue :: "'d server \<Rightarrow> world \<Rightarrow> 'd hook_result" where
  "useGetQueue srv w =
     (case api_call srv (GET ''/queue'') w of (res, w1) \<Rightarrow>
        (if res_error res = None then (Inr (ret_data (res_data res)), w1)
         else (Inr RetNull, w1)))"

section \<open>One call of any hook\<close>

text \<open>An invocation names a hook and carries the arguments its control flow reads: first the
  arguments of the hook, then those of the function it returns.\<close>

datatype (plugins only: code size) invocation =
    CreateProject
  | CreateTestSet string
  | DeleteProject string
  | Statistics "string option" "string option"
  | Project "string option"
  | DeleteScheme string "string option"
  | AddScheme string string
  | AddFeature "string option" string string "js_object option"
  | AddFeature_core string string string "js_object option"
  | DeleteFeature "string option" "string option"
  | GetNextElementId "string option" "string option"
  | GetElementById "string option" "string option"
  | AddAnnotation "string option" "string option"
  | AddTableAnnotations "string option" "string option" "string option"
  | AddLabel "string option" "string option" string
  | AddLabel_core string string string
  | DeleteLabel "string option" "string option" string
  | RenameLabel "string option" "string option"
  | UpdateSimpleModel "string option" "string option" simple_model_form
  | UsersAuth "string option"
  | DeleteUserAuthProject "string option" "string option"
  | CreateUser
  | DeleteUser "string option"
  | AddUserAuthProject "string option" string
  | TrainBertModel "string option" "string option" "js_object option"
  | RenameBertModel "string option"
  | DeleteBertModel "string option"
  | ModelInformations "string option" "string option"
  | ComputeModelPrediction "string option"
  | GetFeaturesFile "string option" string
  | GetAnnotationsFile "string option" string
  | GetPredictionsFile "string option" string
  | GetModelUrl "string option" "string option"
  | UpdateProjection "string option" "string option" projection_form
  | GetProjectionData "string option" "string option"
  | TableDisagreement "string option" "string option"
  | Reconciliate string "string option"
  | Statistics_core string "string option"
  | Project_core "string option"
  | AddScheme_core string string
  | DeleteFeature_core string "string option"
  | GetNextElementId_core string string
  | GetElementById_core string string
  | AddAnnotation_core string string
  | DeleteLabel_core string string string
  | RenameLabel_core string string
  | Users
  | GetQueue

fun invoke :: "'d server \<Rightarrow> invocation \<Rightarrow> world \<Rightarrow> 'd hook_result" where
  "invoke srv CreateProject w = useCreateProject srv w"
| "invoke srv (CreateTestSet p) w = useCreateTestSet srv p w"
| "invoke srv (DeleteProject p) w = useDeleteProject srv p w"
| "invoke srv (Statistics p s) w = useStatistics srv p s w"
| "invoke srv (Project p) w = useProject srv p w"
| "invoke srv (DeleteScheme p s) w = useDeleteScheme srv p s w"
| "invoke srv (AddScheme p s) w = useAddScheme srv p s w"
| "invoke srv (AddFeature p t n ps) w = useAddFeature srv p t n ps w"
| "invoke srv (AddFeature_core p t n ps) w = useAddFeature_core srv p t n ps w"
| "invoke srv (DeleteFeature p n) w = useDeleteFeature srv p n w"
| "invoke srv (GetNextElementId p s) w = useGetNextElementId srv p s w"
| "invoke srv (GetElementById p s) w = useGetElementById srv p s w"
| "invoke srv (AddAnnotation p s) w = useAddAnnotation srv p s w"
| "invoke srv (AddTableAnnotations p s d) w = useAddTableAnnotations srv p s d w"
| "invoke srv (AddLabel p s l) w = useAddLabel srv p s l w"
| "invoke srv (AddLabel_core p s l) w = useAddLabel_core srv p s l w"
| "invoke srv (DeleteLabel p s l) w = useDeleteLabel srv p s l w"
| "invoke srv (RenameLabel p s) w = useRenameLabel srv p s w"
| "invoke srv (UpdateSimpleModel p s f) w = useUpdateSimpleModel srv p s f w"
| "invoke srv (UsersAuth p) w = useUsersAuth srv p w"
| "invoke srv (DeleteUserAuthProject p u) w = useDeleteUserAuthProject srv p u w"
| "invoke srv CreateUser w = useCreateUser srv w"
| "invoke srv (DeleteUser u) w = useDeleteUser srv u w"
| "invoke srv (AddUserAuthProject p u) w = useAddUserAuthProject srv p u w"
| "invoke srv (TrainBertModel p s f) w = useTrainBertModel srv p s f w"
| "invoke srv (RenameBertModel p) w = useRenameBertModel srv p w"
| "invoke srv (DeleteBertModel p) w = useDeleteBertModel srv p w"
| "invoke srv (ModelInformations p m) w = useModelInformations srv p m w"
| "invoke srv (ComputeModelPrediction p) w = useComputeModelPrediction srv p w"
| "invoke srv (GetFeaturesFile p f) w = useGetFeaturesFile srv p f w"
| "invoke srv (GetAnnotationsFile p f) w = useGetAnnotationsFile srv p f w"
| "invoke srv (GetPredictionsFile p f) w = useGetPredictionsFile srv p f w"
| "invoke srv (GetModelUrl p m) w = useGetModelUrl srv p m w"
| "invoke srv (UpdateProjection p s f) w = useUpdateProjection srv p s f w"
| "invoke srv (GetProjectionData p s) w = useGetProjectionData srv p s w"
| "invoke srv (TableDisagreement p s) w = useTableDisagreement srv p s w"
| "invoke srv (Reconciliate p s) w = useReconciliate srv p s w"
| "invoke srv (Statistics_core p s) w = useStatistics_core srv p s w"
| "invoke srv (Project_core p) w = useProject_core srv p w"
| "invoke srv (AddScheme_core p s) w = useAddScheme_core srv p s w"
| "invoke srv (DeleteFeature_core p n) w = useDeleteFeature_core srv p n w"
| "invoke srv (GetNextElementId_core p s) w = useGetNextElementId_core srv p s w"
| "invoke srv (GetElementById_core p s) w = useGetElementById_core srv p s w"
| "invoke srv (AddAnnotation_core p s) w = useAddAnnotation_core srv p s w"
| "invoke srv (DeleteLabel_core p s l) w = useDeleteLabel_core srv p s l w"
| "invoke srv (RenameLabel_core p s) w = useRenameLabel_core srv p s w"
| "invoke srv Users w = useUsers srv w"
| "invoke srv GetQueue w = useGetQueue srv w"

text \<open>The hooks that change something on the server (all of them \<^verbatim>\<open>POST\<close>); the others read
  (\<^verbatim>\<open>GET\<close>, and the selection of the next element).\<close>

definition mutating :: "invocation \<Rightarrow> bool" where
  "mutating call =
     (case call of
        Statistics _ _ \<Rightarrow> False
      | Project _ \<Rightarrow> False
      | GetNextElementId _ _ \<Rightarrow> False
      | GetElementById _ _ \<Rightarrow> False
      | UsersAuth _ \<Rightarrow> False
      | ModelInformations _ _ \<Rightarrow> False
      | GetFeaturesFile _ _ \<Rightarrow> False
      | GetAnnotationsFile _ _ \<Rightarrow> False
      | GetPredictionsFile _ _ \<Rightarrow> False
      | GetModelUrl _ _ \<Rightarrow> False
      | GetProjectionData _ _ \<Rightarrow> False
      | TableDisagreement _ _ \<Rightarrow> False
      | Statistics_core _ _ \<Rightarrow> False
      | Project_core _ \<Rightarrow> False
      | GetNextElementId_core _ _ \<Rightarrow> False
      | GetElementById_core _ _ \<Rightarrow> False
      | Users \<Rightarrow> False
      | GetQueue \<Rightarrow> False
      | _ \<Rightarrow> True)"

text \<open>The two mutating hooks whose error branch is \<^verbatim>\<open>throw new Error(...)\<close>.\<close>

definition throws_on_error :: "invocation \<Rightarrow> bool" where
  "throws_on_error call =
     (case call of
        CreateProject \<Rightarrow> True
      | CreateTestSet _ \<Rightarrow> True
      | _ \<Rightarrow> False)"

text \<open>The parameters the guard of each hook validates, and when one of them is missing:
  \<^verbatim>\<open>null\<close>, \<^verbatim>\<open>undefined\<close> or the empty string for an identifier, \<^verbatim>\<open>null\<close> or \<^verbatim>\<open>undefined\<close>
  for an object. A hook that is not listed validates nothing.\<close>

definition guard_fails :: "invocation \<Rightarrow> bool" where
  "guard_fails call =
     (case call of
        Statistics p s \<Rightarrow> \<not> truthy p \<or> \<not> truthy s
      | Project p \<Rightarrow> \<not> truthy p
      | DeleteScheme p s \<Rightarrow> \<not> truthy s
      | AddScheme p n \<Rightarrow> \<not> truthy_str n
      | AddFeature p t n ps \<Rightarrow> \<not> truthy_str t \<or> ps = None \<or> \<not> truthy p
      | AddFeature_core p t n ps \<Rightarrow> \<not> truthy_str t
      | DeleteFeature p n \<Rightarrow> \<not> truthy n \<or> \<not> truthy p
      | GetNextElementId p s \<Rightarrow> \<not> truthy p \<or> \<not> truthy s
      | GetElementById p s \<Rightarrow> \<not> truthy p \<or> \<not> truthy s
      | AddAnnotation p s \<Rightarrow> \<not> truthy p \<or> \<not> truthy s
      | AddTableAnnotations p s d \<Rightarrow> \<not> truthy p \<or> \<not> truthy s
      | AddLabel p s l \<Rightarrow> \<not> truthy p \<or> \<not> truthy s
      | DeleteLabel p s l \<Rightarrow> \<not> truthy p \<or> \<not> truthy s
      | RenameLabel p s \<Rightarrow> \<not> truthy p \<or> \<not> truthy s
      | UpdateSimpleModel p s f \<Rightarrow>
          \<not> truthy p \<or> sm_features f = None \<or> \<not> truthy s \<or> \<not> truthy (sm_model f)
          \<or> sm_params f = None
      | UsersAuth p \<Rightarrow> \<not> truthy p
      | DeleteUserAuthProject p u \<Rightarrow> \<not> truthy p \<or> \<not> truthy u
      | DeleteUser u \<Rightarrow> \<not> truthy u
      | AddUserAuthProject p u \<Rightarrow> \<not> truthy p \<or> \<not> truthy_str u
      | TrainBertModel p s f \<Rightarrow> \<not> truthy p \<or> \<not> truthy s \<or> f = None
      | RenameBertModel p \<Rightarrow> \<not> truthy p
      | DeleteBertModel p \<Rightarrow> \<not> truthy p
      | ModelInformations p m \<Rightarrow> \<not> truthy m \<or> \<not> truthy p
      | ComputeModelPrediction p \<Rightarrow> \<not> truthy p
      | GetFeaturesFile p f \<Rightarrow> \<not> truthy p
      | GetAnnotationsFile p f \<Rightarrow> \<not> truthy p
      | GetPredictionsFile p f \<Rightarrow> \<not> truthy p
      | GetModelUrl p m \<Rightarrow> \<not> truthy p \<or> \<not> truthy m
      | UpdateProjection p s f \<Rightarrow>
          \<not> truthy p \<or> pr_features f = None \<or> \<not> truthy s \<or> pr_params f = None
      | GetProjectionData p s \<Rightarrow> \<not> truthy s \<or> \<not> truthy p
      | TableDisagreement p s \<Rightarrow> \<not> truthy s \<or> \<not> truthy p
      | Reconciliate p s \<Rightarrow> \<not> truthy s \<or> \<not> truthy_str p
      | Statistics_core p s \<Rightarrow> \<not> truthy_str p
      | Project_core p \<Rightarrow> \<not> truthy p
      | AddScheme_core p n \<Rightarrow> \<not> truthy_str n
      | DeleteFeature_core p n \<Rightarrow> \<not> truthy n
      | _ \<Rightarrow> False)"


text \<open>\<^verbatim>\<open>String.prototype.includes\<close>.\<close>

fun str_includes :: "string \<Rightarrow> string \<Rightarrow> bool" where
  "str_includes [] sub = (sub = [])"
| "str_includes (c # cs) sub = (take (length sub) (c # cs) = sub \<or> str_includes cs sub)"

text \<open>Concrete inputs: a fresh page, a server that answers every call with a payload, and one
  that answers every call with a validation error.\<close>

definition world0 :: world where
  "world0 = \<lparr>http_calls = [], notifications = [], saved_files = [], refetches = 0,
             local_storage = Map.empty\<rparr>"

definition srv_ok :: "nat server" where
  "srv_ok c = \<lparr>res_data = Some 7, res_error = None, res_status = 200\<rparr>"

definition srv_422 :: "nat server" where
  "srv_422 c = \<lparr>res_data = None,
               res_error = Some (ErrorObject (Some (DetailList [''field required'']))),
               res_status = 422\<rparr>"

definition srv_401 :: "nat server" where
  "srv_401 c = \<lparr>res_data = None,
               res_error = Some (ErrorObject (Some (DetailString ''Incorrect username or password''))),
               res_status = 401\<rparr>"

text \<open>A stored credential with token \<open>B\<close>, and the request \<^verbatim>\<open>logout('A')\<close> builds, which sets
  its own \<^verbatim>\<open>Authorization\<close> header.\<close>

definition stored_user :: credential where
  "stored_user = \<lparr>username = ''ada'', token = ''B''\<rparr>"

definition parse_stored :: "string \<Rightarrow> exn + credential option" where
  "parse_stored s = Inr (Some stored_user)"

definition logout_request :: headers where
  "logout_request = headers_set Map.empty ''Authorization'' ''Bearer A''"

definition storage_with_user :: "string \<rightharpoonup> string" where
  "storage_with_user = [''activeTigger.auth'' \<mapsto> ''{username: ada, token: B}'']"

definition world_logged_in :: world where
  "world_logged_in = world0\<lparr>local_storage := storage_with_user\<rparr>"

section \<open>The table of elements\<close>

text \<open>\<^verbatim>\<open>useTableElements\<close>: the page and the total are component state; numbers are integers
  here. \<^verbatim>\<open>initialPage || 1\<close> takes the default for \<^verbatim>\<open>null\<close>, \<^verbatim>\<open>undefined\<close> and \<^verbatim>\<open>0\<close>.\<close>

record page_info =
  pageIndex :: int
  pageSize :: int

record table_state =
  pageInfo :: page_info
  table_total :: int

record table_query =
  q_min :: int
  q_max :: int

record 'i table_page =
  items :: "'i list"
  page_total :: int

definition or_default :: "int option \<Rightarrow> int \<Rightarrow> int" where
  "or_default v d = (case v of None \<Rightarrow> d | Some n \<Rightarrow> if n = 0 then d else n)"

definition initial_table_state :: "int option \<Rightarrow> int option \<Rightarrow> table_state" where
  "initial_table_state initialPage initialPageSize =
     \<lparr>pageInfo = \<lparr>pageIndex = or_default initialPage 1, pageSize = or_default initialPageSize 10\<rparr>,
      table_total = 0\<rparr>"

text \<open>The query of the producer, read from the state of the render that runs it; \<open>None\<close>
  when the guard \<^verbatim>\<open>scheme && project_slug\<close> fails and no request is sent.\<close>

definition getTableElements_query :: "string option \<Rightarrow> string option \<Rightarrow> table_state \<Rightarrow> table_query option" where
  "getTableElements_query project_slug scheme st =
     (if truthy scheme \<and> truthy project_slug then
        Some \<lparr>q_min = (pageIndex (pageInfo st) - 1) * pageSize (pageInfo st),
              q_max = min (pageIndex (pageInfo st) * pageSize (pageInfo st)) (table_total st)\<rparr>
      else None)"

text \<open>What happens to one instance of the hook: the caller asks for a page
  (\<^verbatim>\<open>getPage = setPageInfo\<close>, a dependency of the producer, which runs again), another
  dependency changes (\<^verbatim>\<open>search\<close>, \<^verbatim>\<open>sample\<close>) and the producer runs again on the same
  page, or the response of a request arrives (\<^verbatim>\<open>if (!res.error) setTotal(res.data.total)\<close>; reading
  \<^verbatim>\<open>total\<close> of an \<^verbatim>\<open>undefined\<close> payload throws and sets nothing).\<close>

datatype 'i table_event = GetPage page_info | Refetch | Response "'i table_page fetch_result"

fun table_step ::
  "string option \<Rightarrow> string option \<Rightarrow> table_state \<times> table_query list \<Rightarrow> 'i table_event \<Rightarrow>
   table_state \<times> table_query list" where
  "table_step project_slug scheme (st, sent) (GetPage pi) =
     (let st' = st\<lparr>pageInfo := pi\<rparr> in
      (st', sent @ (case getTableElements_query project_slug scheme st' of
                      None \<Rightarrow> [] | Some q \<Rightarrow> [q])))"
| "table_step project_slug scheme (st, sent) Refetch =
     (st, sent @ (case getTableElements_query project_slug scheme st of
                    None \<Rightarrow> [] | Some q \<Rightarrow> [q]))"
| "table_step project_slug scheme (st, sent) (Response res) =
     (if res_error res = None then
        (case res_data res of
           None \<Rightarrow> (st, sent)
         | Some d \<Rightarrow> (st\<lparr>table_total := page_total d\<rparr>, sent))
      else (st, sent))"

text \<open>Mounting the hook runs the producer once on the initial state; then the events.\<close>

definition useTableElements ::
  "string option \<Rightarrow> string option \<Rightarrow> int option \<Rightarrow> int option \<Rightarrow> 'i table_event list \<Rightarrow>
   table_state \<times> table_query list" where
  "useTableElements project_slug scheme initialPage initialPageSize evs =
     (let st0 = initial_table_state initialPage initialPageSize in
      foldl (table_step project_slug scheme)
        (st0, case getTableElements_query project_slug scheme st0 of None \<Rightarrow> [] | Some q \<Rightarrow> [q])
        evs)"

text \<open>The total reported by the last response without error among the events, \<open>0\<close> when
  there is none.\<close>

fun response_total :: "'i table_event \<Rightarrow> int option" where
  "response_total (GetPage _) = None"
| "response_total Refetch = None"
| "response_total (Response res) =
     (if res_error res = None then map_option page_total (res_data res) else None)"

definition reported_total :: "'i table_event list \<Rightarrow> int" where
  "reported_total evs =
     (case rev (List.map_filter response_total evs) of [] \<Rightarrow> 0 | t # _ \<Rightarrow> t)"

section \<open>The import form of a prediction dataset\<close>

record file_info =
  filename :: string
  file_size :: nat

definition maxSizeMo :: nat where
  "maxSizeMo = 50"

definition maxSize :: nat where
  "maxSize = maxSizeMo * 1024 * 1024"

text \<open>The state the effect of \<^verbatim>\<open>ImportPredictionDataset\<close> touches: the previewed
  dataset, the notifications, and the files handed to \<^verbatim>\<open>loadFile\<close>. \<^verbatim>\<open>loadFile\<close>
  (core/utils) is a parameter that answers the parsed dataset or \<^verbatim>\<open>null\<close>.\<close>

record 'dt import_state =
  dataset :: "'dt option"
  import_notifications :: "notification list"
  loaded :: "file_info list"

definition files_effect ::
  "(file_info \<Rightarrow> 'dt option) \<Rightarrow> file_info list option \<Rightarrow> 'dt import_state \<Rightarrow> 'dt import_state" where
  "files_effect loadFile files st =
     (case files of
        None \<Rightarrow> st
      | Some [] \<Rightarrow> st
      | Some (file # _) \<Rightarrow>
          (if file_size file > maxSize then
             st\<lparr>import_notifications := import_notifications st @
                  [\<lparr>ntype = NError,
                    message = ''File is too big (only file less than 50 are allowed)''\<rparr>]\<rparr>
           else
             (let st1 = st\<lparr>loaded := loaded st @ [file]\<rparr> in
              case loadFile file of
                None \<Rightarrow> st1\<lparr>import_notifications := import_notifications st1 @
                              [\<lparr>ntype = NError, message = ''Error reading the file''\<rparr>]\<rparr>
              | Some d \<Rightarrow> st1\<lparr>dataset := Some d\<rparr>)))"

section \<open>The async-resource hook\<close>

text \<open>Modelled from the spec: \<^verbatim>\<open>useAsyncMemo\<close> and \<^verbatim>\<open>getAsyncMemoData\<close> (core/useAsyncMemo) are
  not under src/. The spec: the hook wraps a fetch in component state (idle, loading,
  loaded, error) and exposes the resolved value or \<^verbatim>\<open>undefined\<close>; it runs the producer when
  mounted and whenever a dependency changes; "each fetch carries a monotonically increasing
  sequence number; only the highest sequence number's result commits".\<close>

datatype 'a async_status = Idle | Loading | Loaded 'a | Failed exn

record 'a async_memo =
  status :: "'a async_status"
  last_started :: nat

text \<open>\<open>Start\<close>: mount or a dependency change starts the next invocation. \<open>Settle i r\<close>: the
  promise of invocation \<open>i\<close> settles with \<open>r\<close>.\<close>

datatype 'a async_event = Start | Settle nat "exn + 'a"

definition async_init :: "'a async_memo" where
  "async_init = \<lparr>status = Idle, last_started = 0\<rparr>"

fun async_step :: "'a async_memo \<Rightarrow> 'a async_event \<Rightarrow> 'a async_memo" where
  "async_step m Start = \<lparr>status = Loading, last_started = Suc (last_started m)\<rparr>"
| "async_step m (Settle i r) =
     (if i = last_started m then
        m\<lparr>status := (case r of Inl e \<Rightarrow> Failed e | Inr v \<Rightarrow> Loaded v)\<rparr>
      else m)"

definition useAsyncMemo :: "'a async_event list \<Rightarrow> 'a async_memo" where
  "useAsyncMemo evs = foldl async_step async_init evs"

definition getAsyncMemoData :: "'a async_memo \<Rightarrow> 'a option" where
  "getAsyncMemoData m = (case status m of Loaded v \<Rightarrow> Some v | _ \<Rightarrow> None)"

text \<open>The number of invocations a sequence of events starts: the sequence number of the most
  recently started one.\<close>

definition started :: "'a async_event list \<Rightarrow> nat" where
  "started evs = length (filter (\<lambda>e. e = Start) evs)"

text \<open>A call sent a request when the log of requests grew.\<close>

definition sends_request :: "'d server \<Rightarrow> invocation \<Rightarrow> world \<Rightarrow> bool" where
  "sends_request srv call w = (http_calls (snd (invoke srv call w)) \<noteq> http_calls w)"

text \<open>The mutating hooks that start a long-running job on the server, and those whose
  mutation is done when the server answers.\<close>

definition long_running :: "invocation \<Rightarrow> bool" where
  "long_running call =
     (case call of
        AddFeature _ _ _ _ \<Rightarrow> True
      | AddFeature_core _ _ _ _ \<Rightarrow> True
      | UpdateSimpleModel _ _ _ \<Rightarrow> True
      | TrainBertModel _ _ _ \<Rightarrow> True
      | UpdateProjection _ _ _ \<Rightarrow> True
      | ComputeModelPrediction _ \<Rightarrow> True
      | _ \<Rightarrow> False)"

definition completes_immediately :: "invocation \<Rightarrow> bool" where
  "completes_immediately call =
     (case call of
        AddLabel _ _ _ \<Rightarrow> True
      | AddLabel_core _ _ _ \<Rightarrow> True
      | DeleteLabel _ _ _ \<Rightarrow> True
      | RenameLabel _ _ \<Rightarrow> True
      | DeleteLabel_core _ _ _ \<Rightarrow> True
      | RenameLabel_core _ _ \<Rightarrow> True
      | AddScheme _ _ \<Rightarrow> True
      | AddScheme_core _ _ \<Rightarrow> True
      | DeleteScheme _ _ \<Rightarrow> True
      | CreateProject \<Rightarrow> True
      | DeleteProject _ \<Rightarrow> True
      | _ \<Rightarrow> False)"

text \<open>A response of the table request that reports 57 elements.\<close>

definition page_of_57 :: "nat table_event" where
  "page_of_57 = Response \<lparr>res_data = Some \<lparr>items = [], page_total = 57\<rparr>, res_error = None,
                           res_status = 200\<rparr>"

text \<open>The hooks that rename a label, and the mutating hooks whose function ends without
  \<^verbatim>\<open>return\<close>.\<close>

definition renames_label :: "invocation \<Rightarrow> bool" where
  "renames_label call =
     (case call of RenameLabel _ _ \<Rightarrow> True | RenameLabel_core _ _ \<Rightarrow> True | _ \<Rightarrow> False)"

definition returns_nothing :: "invocation \<Rightarrow> bool" where
  "returns_nothing call =
     (case call of DeleteProject _ \<Rightarrow> True | DeleteScheme _ _ \<Rightarrow> True | _ \<Rightarrow> False)"

section \<open>The auth middleware keeps the caller's headers\<close>

lemma set_if_unset_keeps:
  "headers_get h n = Some v \<Longrightarrow> headers_get (set_if_unset h p) n = Some v"
  by (auto simp: set_if_unset_def headers_get_def headers_set_def)

lemma foldl_set_if_unset_keeps:
  "headers_get h n = Some v \<Longrightarrow> headers_get (foldl set_if_unset h pairs) n = Some v"
proof (induction pairs arbitrary: h)
  case Nil
  then show ?case by simp
next
  case (Cons p ps)
  from Cons.prems have "headers_get (set_if_unset h p) n = Some v"
    by (rule set_if_unset_keeps)
  then show ?case
    using Cons.IH by simp
qed

lemma onRequest_keeps_headers:
  assumes "sent_headers (onRequest parse getAuthHeaders ls request) request = Inr sent"
    and "headers_get request n = Some v"
  shows "headers_get sent n = Some v"
  using assms
  by (auto simp: sent_headers_def onRequest_def foldl_set_if_unset_keeps
      split: sum.splits option.splits)

text \<open>The key under which the \<^verbatim>\<open>Authorization\<close> header is kept.\<close>

lemma header_name_Authorization: "header_name ''Authorization'' = ''authorization''"
  by code_simp

text \<open>
  Claim C1. The auth middleware sets only the authorization headers the caller has not set:
  every header on the request before the middleware runs has the same value after it. The
  middleware that checks \<^verbatim>\<open>get(header) === null\<close> does so (lemma
  \<open>onRequest_keeps_headers\<close>). The middleware of \<^verbatim>\<open>src/frontend/src/core/api.ts\<close> does not:
  with a credential of token \<open>B\<close> stored, a request that carries \<^verbatim>\<open>Authorization: Bearer A\<close>
  is sent with \<^verbatim>\<open>Bearer B\<close>; the checking middleware sends \<^verbatim>\<open>Bearer A\<close>.
\<close>

theorem authMiddleware_core_overwrites:
  "headers_get logout_request ''Authorization'' = Some ''Bearer A'' \<and>
   map_sum id (\<lambda>h. headers_get h ''Authorization'')
     (sent_headers (onRequest_core parse_stored getAuthHeaders_spec storage_with_user logout_request)
        logout_request) = Inr (Some ''Bearer B'') \<and>
   map_sum id (\<lambda>h. headers_get h ''Authorization'')
     (sent_headers (onRequest parse_stored getAuthHeaders_spec storage_with_user logout_request)
        logout_request) = Inr (Some ''Bearer A'')"
  by (simp add: header_name_Authorization sent_headers_def onRequest_core_def onRequest_def
      authenticatedUser_def storage_with_user_def truthy_def parse_stored_def
      getAuthHeaders_spec_def stored_user_def set_always_def set_if_unset_def headers_set_def
      headers_get_def logout_request_def)

section \<open>login and logout raise typed errors\<close>

text \<open>What \<open>login\<close> does with each response: the payload when there is data and no error;
  an \<open>HttpError\<close> with the status and \<^verbatim>\<open>error.detail + ''\<close> when there is an error; a
  \<^verbatim>\<open>TypeError\<close> when there is neither. It never writes the local storage.\<close>

lemma login_returns_payload:
  "res_data (srv (POST ''/token'')) = Some d \<Longrightarrow> res_error (srv (POST ''/token'')) = None \<Longrightarrow>
   fst (login srv w) = Inr d"
  by (simp add: login_def api_call_def)

lemma login_raises_HttpError:
  "res_error (srv (POST ''/token'')) = Some e \<Longrightarrow>
   fst (login srv w) =
     Inl (HttpError (res_status (srv (POST ''/token''))) (detail_plus_empty (detail e)))"
  by (simp add: login_def api_call_def split: option.splits)

lemma login_string_detail:
  "res_error (srv (POST ''/token'')) = Some (ErrorObject (Some (DetailString m))) \<Longrightarrow>
   fst (login srv w) = Inl (HttpError (res_status (srv (POST ''/token''))) m)"
  by (simp add: login_raises_HttpError detail_plus_empty_def)

lemma login_no_detail:
  "res_error (srv (POST ''/token'')) = Some e \<Longrightarrow> detail e = None \<Longrightarrow>
   fst (login srv w) = Inl (HttpError (res_status (srv (POST ''/token''))) ''undefined'')"
  by (simp add: login_raises_HttpError detail_plus_empty_def)

lemma login_neither_data_nor_error:
  "res_data (srv (POST ''/token'')) = None \<Longrightarrow> res_error (srv (POST ''/token'')) = None \<Longrightarrow>
   fst (login srv w) = Inl TypeError"
  by (simp add: login_def api_call_def)

lemma login_keeps_storage: "local_storage (snd (login srv w)) = local_storage w"
  by (simp add: login_def api_call_def split: option.splits prod.splits)

text \<open>
  Claim C3. \<open>login\<close> returns the payload of a response with data and no error, and otherwise
  raises an \<open>HttpError\<close> with the status of the response and the detail message the server
  reported. The code does so for a detail that is a string. For the validation error the
  generated type describes, a response 422 whose detail is the list with the message
  "field required", it raises \<open>HttpError 422\<close> with the message \<^verbatim>\<open>[object Object]\<close>: the
  message of the server is lost. \<^verbatim>\<open>useCreateProject\<close> reads the same error body as
  \<^verbatim>\<open>detail.map((d) => d.msg).join('; ')\<close> and keeps it.
\<close>

theorem login_validation_detail_lost:
  "res_error (srv_422 (POST ''/token'')) = Some (ErrorObject (Some (DetailList [''field required'']))) \<and>
   fst (login srv_422 world0) = Inl (HttpError 422 ''[object Object]'') \<and>
   fst (useCreateProject srv_422 world0) = Inl (JsError ''field required'')"
  by (simp add: srv_422_def login_def useCreateProject_def api_call_def detail_plus_empty_def
      detail_messages_def object_toString_def)

text \<open>
  Claim C4. \<open>logout\<close> returns if and only if the status of the response is 200, and then the
  logout flow clears the stored credential; for every other status it raises an \<open>HttpError\<close>
  with that status, and the stored credential is left as it was.
\<close>

theorem logout_result:
  "((\<exists>b. fst (logout srv w) = Inr b) \<longleftrightarrow> res_status (srv (POST ''/users/disconnect'')) = 200) \<and>
   (res_status (srv (POST ''/users/disconnect'')) = 200 \<longrightarrow>
      fst (logout srv w) = Inr True \<and>
      fst (auth_logout srv w) = Inr () \<and>
      local_storage (snd (auth_logout srv w)) ''activeTigger.auth'' = None) \<and>
   (res_status (srv (POST ''/users/disconnect'')) \<noteq> 200 \<longrightarrow>
      fst (logout srv w) = Inl (HttpError (res_status (srv (POST ''/users/disconnect''))) ''could not logout'') \<and>
      local_storage (snd (logout srv w)) = local_storage w \<and>
      fst (auth_logout srv w) = Inl (HttpError (res_status (srv (POST ''/users/disconnect''))) ''could not logout'') \<and>
      local_storage (snd (auth_logout srv w)) = local_storage w)"
  by (auto simp: logout_def auth_logout_def api_call_def)

theorem logout_result_witness:
  "fst (logout srv_ok world_logged_in) = Inr True \<and>
   local_storage (snd (auth_logout srv_ok world_logged_in)) ''activeTigger.auth'' = None \<and>
   fst (logout srv_401 world_logged_in) = Inl (HttpError 401 ''could not logout'') \<and>
   local_storage (snd (auth_logout srv_401 world_logged_in)) ''activeTigger.auth''
     = Some ''{username: ada, token: B}''"
  using logout_result [of srv_ok world_logged_in] logout_result [of srv_401 world_logged_in]
  by (simp add: srv_ok_def srv_401_def world_logged_in_def world0_def storage_with_user_def)

section \<open>What the hooks do on an error and on a missing parameter\<close>

lemmas hook_defs =
  useCreateProject_def useCreateTestSet_def useDeleteProject_def useStatistics_def useProject_def
  useDeleteScheme_def useAddScheme_def useAddFeature_def useAddFeature_core_def
  useDeleteFeature_def useGetNextElementId_def useGetElementById_def useAddAnnotation_def
  useAddTableAnnotations_def useAddLabel_def useAddLabel_core_def useDeleteLabel_def
  useRenameLabel_def useUpdateSimpleModel_def useUsersAuth_def useDeleteUserAuthProject_def
  useCreateUser_def useDeleteUser_def useAddUserAuthProject_def useTrainBertModel_def
  useRenameBertModel_def useDeleteBertModel_def useModelInformations_def
  useComputeModelPrediction_def useGetFeaturesFile_def useGetAnnotationsFile_def
  useGetPredictionsFile_def useGetModelUrl_def useUpdateProjection_def useGetProjectionData_def
  useTableDisagreement_def useReconciliate_def useStatistics_core_def useProject_core_def
  useAddScheme_core_def useDeleteFeature_core_def useGetNextElementId_core_def
  useGetElementById_core_def useAddAnnotation_core_def useDeleteLabel_core_def
  useRenameLabel_core_def useUsers_def useGetQueue_def

lemmas effect_defs = api_call_def notify_def saveAs_def reFetch_def

text \<open>The guard table is the guard of the code: a call sends exactly one request when no
  validated parameter is missing.\<close>

lemma guarded_request_sent:
  "\<not> guard_fails call \<Longrightarrow> \<exists>c. http_calls (snd (invoke srv call w)) = http_calls w @ [c]"
  by (cases call)
     (auto simp: guard_fails_def hook_defs effect_defs split: option.splits sum.splits)




text \<open>
  Claim C5, as stated (a mutating hook other than login and logout does not raise on an error
  response and returns a falsy indicator), fails: \<^verbatim>\<open>useCreateProject\<close> raises an \<^verbatim>\<open>Error\<close>
  with the messages of the server, and \<^verbatim>\<open>useRenameLabel\<close> returns \<^verbatim>\<open>true\<close>.
\<close>

theorem mutating_hook_error_counterexample:
  "mutating CreateProject \<and>
   res_error (srv_422 (POST ''/projects/new'')) \<noteq> None \<and>
   fst (invoke srv_422 CreateProject world0) = Inl (JsError ''field required'') \<and>
   mutating (RenameLabel (Some ''p'') (Some ''s'')) \<and>
   res_error (srv_422 (POST ''/schemes/label/rename'')) \<noteq> None \<and>
   fst (invoke srv_422 (RenameLabel (Some ''p'') (Some ''s'')) world0) = Inr RetTrue \<and>
   \<not> falsy (RetTrue :: nat ret)"
  by (simp add: mutating_def srv_422_def hook_defs effect_defs detail_messages_def truthy_def
      falsy_def world0_def)

text \<open>
  Claim C5, amended. When a mutating hook sends its request and the response carries the
  error \<open>e\<close>: \<^verbatim>\<open>useCreateProject\<close> and \<^verbatim>\<open>useCreateTestSet\<close> raise and emit no notification, the
  exception being an \<^verbatim>\<open>Error\<close> whose message is the validation messages joined by "; " when
  the detail of \<open>e\<close> is a list, the text of \<open>e\<close> when \<open>e\<close> is a plain string, and
  \<^verbatim>\<open>[object Object]\<close> when \<open>e\<close> is an object without detail; \<^verbatim>\<open>useRenameLabel\<close> returns
  \<^verbatim>\<open>true\<close> and emits exactly one notification, of type error, "Error when renamed"; every
  other mutating hook emits no notification and returns \<^verbatim>\<open>true\<close>, or nothing for
  \<^verbatim>\<open>deleteProject\<close> and \<^verbatim>\<open>deleteScheme\<close>.
\<close>

theorem mutating_hook_on_error:
  assumes "mutating call" and "sends_request srv call w" and "\<forall>c. res_error (srv c) = Some e"
  shows "(throws_on_error call \<longrightarrow>
            notifications (snd (invoke srv call w)) = notifications w \<and>
            (\<exists>x. fst (invoke srv call w) = Inl x) \<and>
            (\<forall>l. e = ErrorObject (Some (DetailList l)) \<longrightarrow>
               fst (invoke srv call w) = Inl (JsError (join ''; '' l))) \<and>
            (\<forall>t. e = ErrorText t \<longrightarrow> fst (invoke srv call w) = Inl (JsError t)) \<and>
            (e = ErrorObject None \<longrightarrow>
               fst (invoke srv call w) = Inl (JsError ''[object Object]''))) \<and>
         (renames_label call \<longrightarrow>
            fst (invoke srv call w) = Inr RetTrue \<and>
            notifications (snd (invoke srv call w))
              = notifications w @ [\<lparr>ntype = NError, message = ''Error when renamed''\<rparr>]) \<and>
         (\<not> throws_on_error call \<and> \<not> renames_label call \<longrightarrow>
            fst (invoke srv call w) = Inr (if returns_nothing call then RetUndefined else RetTrue) \<and>
            notifications (snd (invoke srv call w)) = notifications w)"
proof -
  have err: "res_error (srv c) = Some e" for c
    using assms(3) by simp
  show ?thesis
    using assms(1,2)
    by (cases call)
       (auto simp: err mutating_def throws_on_error_def renames_label_def returns_nothing_def
         sends_request_def hook_defs effect_defs detail_messages_def object_toString_def
         split: option.splits sum.splits error_detail.splits if_splits)
qed

theorem mutating_hook_on_error_witness:
  "fst (invoke srv_422 (AddLabel (Some ''p'') (Some ''s'') ''l'') world0) = Inr RetTrue \<and>
   notifications (snd (invoke srv_422 (AddLabel (Some ''p'') (Some ''s'') ''l'') world0)) = [] \<and>
   fst (invoke srv_422 (CreateTestSet ''p'') world0) = Inl (JsError ''field required'') \<and>
   notifications (snd (invoke srv_422 (RenameLabel (Some ''p'') (Some ''s'')) world0))
     = [\<lparr>ntype = NError, message = ''Error when renamed''\<rparr>] \<and>
   fst (invoke srv_422 (DeleteProject ''p'') world0) = Inr RetUndefined"
  using mutating_hook_on_error [of "AddLabel (Some ''p'') (Some ''s'') ''l''" srv_422 world0
      "ErrorObject (Some (DetailList [''field required'']))"]
    mutating_hook_on_error [of "CreateTestSet ''p''" srv_422 world0
      "ErrorObject (Some (DetailList [''field required'']))"]
    mutating_hook_on_error [of "RenameLabel (Some ''p'') (Some ''s'')" srv_422 world0
      "ErrorObject (Some (DetailList [''field required'']))"]
    mutating_hook_on_error [of "DeleteProject ''p''" srv_422 world0
      "ErrorObject (Some (DetailList [''field required'']))"]
  by (simp add: mutating_def throws_on_error_def renames_label_def returns_nothing_def
      sends_request_def srv_422_def hook_defs effect_defs truthy_def world0_def
      detail_messages_def)

section \<open>Exports, job notifications, the table, the import form\<close>

text \<open>
  Claim C7. For an export of annotations, predictions or features with a format, when the
  request is sent: a response without error saves exactly one file, named the kind of
  artifact, a dot and the format; a response with an error saves nothing.
\<close>

theorem export_saves_named_file:
  assumes "truthy projectSlug"
  shows "(res_error (srv (GET ''/export/data'')) = None \<longrightarrow>
            saved_files (snd (useGetAnnotationsFile srv projectSlug format w))
              = saved_files w @ [''annotations'' @ ''.'' @ format]) \<and>
         (res_error (srv (GET ''/export/data'')) \<noteq> None \<longrightarrow>
            saved_files (snd (useGetAnnotationsFile srv projectSlug format w)) = saved_files w) \<and>
         (res_error (srv (GET ''/export/prediction'')) = None \<longrightarrow>
            saved_files (snd (useGetPredictionsFile srv projectSlug format w))
              = saved_files w @ [''predictions'' @ ''.'' @ format]) \<and>
         (res_error (srv (GET ''/export/prediction'')) \<noteq> None \<longrightarrow>
            saved_files (snd (useGetPredictionsFile srv projectSlug format w)) = saved_files w) \<and>
         (res_error (srv (GET ''/export/features'')) = None \<longrightarrow>
            saved_files (snd (useGetFeaturesFile srv projectSlug format w))
              = saved_files w @ [''features'' @ ''.'' @ format]) \<and>
         (res_error (srv (GET ''/export/features'')) \<noteq> None \<longrightarrow>
            saved_files (snd (useGetFeaturesFile srv projectSlug format w)) = saved_files w)"
  using assms
  by (auto simp: useGetAnnotationsFile_def useGetPredictionsFile_def useGetFeaturesFile_def
      effect_defs)

theorem export_saves_named_file_witness:
  "saved_files (snd (useGetAnnotationsFile srv_ok (Some ''proj'') ''csv'' world0)) = [''annotations.csv''] \<and>
   saved_files (snd (useGetPredictionsFile srv_ok (Some ''proj'') ''parquet'' world0)) = [''predictions.parquet''] \<and>
   saved_files (snd (useGetFeaturesFile srv_ok (Some ''proj'') ''csv'' world0)) = [''features.csv''] \<and>
   saved_files (snd (useGetAnnotationsFile srv_422 (Some ''proj'') ''csv'' world0)) = []"
  using export_saves_named_file [of "Some ''proj''" srv_ok "''csv''" world0]
    export_saves_named_file [of "Some ''proj''" srv_ok "''parquet''" world0]
    export_saves_named_file [of "Some ''proj''" srv_422 "''csv''" world0]
  by (simp add: truthy_def srv_ok_def srv_422_def world0_def)

text \<open>
  Claim C8, as stated (the notification of a hook that starts a long-running job has an
  "under computation" or "under training" message), fails: \<^verbatim>\<open>useTrainBertModel\<close> notifies
  "Starting bertmodel training".
\<close>

theorem long_running_message_counterexample:
  "notifications (snd (useTrainBertModel srv_ok (Some ''p'') (Some ''s'') (Some []) world0)) =
     [\<lparr>ntype = NWarning, message = ''Starting bertmodel training''\<rparr>] \<and>
   \<not> str_includes ''Starting bertmodel training'' ''under computation'' \<and>
   \<not> str_includes ''Starting bertmodel training'' ''under training''"
  by (simp add: useTrainBertModel_def effect_defs truthy_def srv_ok_def world0_def)

text \<open>
  Claim C8, amended. When the request is sent and the response carries no error, a hook that
  starts a long-running job emits exactly one notification, of type warning, with its own
  progress message: "Features are under computation..." (add feature), "Model under
  training" (train simple model), "Starting bertmodel training" (train BERT model),
  "Projection under training" (compute projection), "Computing prediction. It can take some
  time." (compute prediction). A hook whose mutation completes at once emits exactly one
  notification, of type success, with its own message: "New label created", "Label deleted",
  "Label renamed", "Scheme add", "Scheme deleted", "Project created", "Project deleted".
\<close>

theorem job_notification_type:
  assumes "sends_request srv call w" and "\<forall>c. res_error (srv c) = None"
  shows "(long_running call \<longrightarrow>
            notifications (snd (invoke srv call w))
              = notifications w @
                [\<lparr>ntype = NWarning,
                  message =
                    (case call of
                       AddFeature _ _ _ _ \<Rightarrow> ''Features are under computation...''
                     | AddFeature_core _ _ _ _ \<Rightarrow> ''Features are under computation...''
                     | UpdateSimpleModel _ _ _ \<Rightarrow> ''Model under training''
                     | TrainBertModel _ _ _ \<Rightarrow> ''Starting bertmodel training''
                     | UpdateProjection _ _ _ \<Rightarrow> ''Projection under training''
                     | ComputeModelPrediction _ \<Rightarrow> ''Computing prediction. It can take some time.''
                     | _ \<Rightarrow> [])\<rparr>]) \<and>
         (completes_immediately call \<longrightarrow>
            notifications (snd (invoke srv call w))
              = notifications w @
                [\<lparr>ntype = NSuccess,
                  message =
                    (case call of
                       AddLabel _ _ _ \<Rightarrow> ''New label created''
                     | AddLabel_core _ _ _ \<Rightarrow> ''New label created''
                     | DeleteLabel _ _ _ \<Rightarrow> ''Label deleted''
                     | DeleteLabel_core _ _ _ \<Rightarrow> ''Label deleted''
                     | RenameLabel _ _ \<Rightarrow> ''Label renamed''
                     | RenameLabel_core _ _ \<Rightarrow> ''Label renamed''
                     | AddScheme _ _ \<Rightarrow> ''Scheme add''
                     | AddScheme_core _ _ \<Rightarrow> ''Scheme add''
                     | DeleteScheme _ _ \<Rightarrow> ''Scheme deleted''
                     | CreateProject \<Rightarrow> ''Project created''
                     | DeleteProject _ \<Rightarrow> ''Project deleted''
                     | _ \<Rightarrow> [])\<rparr>])"
proof -
  have ok: "res_error (srv c) = None" for c
    using assms(2) by simp
  show ?thesis
    using assms(1)
    by (cases call)
       (auto simp: ok sends_request_def long_running_def completes_immediately_def
         hook_defs effect_defs split: if_splits)
qed

theorem job_notification_type_witness:
  "notifications (snd (invoke srv_ok (ComputeModelPrediction (Some ''p'')) world0))
     = [\<lparr>ntype = NWarning, message = ''Computing prediction. It can take some time.''\<rparr>] \<and>
   notifications (snd (invoke srv_ok (DeleteLabel (Some ''p'') (Some ''s'') ''l'') world0))
     = [\<lparr>ntype = NSuccess, message = ''Label deleted''\<rparr>]"
  using job_notification_type [of srv_ok "ComputeModelPrediction (Some ''p'')" world0]
    job_notification_type [of srv_ok "DeleteLabel (Some ''p'') (Some ''s'') ''l''" world0]
  by (simp add: sends_request_def long_running_def completes_immediately_def
      srv_ok_def world0_def hook_defs effect_defs truthy_def)

text \<open>
  Claim C10. A selected file of more than \<open>50 * 1024 * 1024\<close> bytes gives exactly one error
  notification, is not handed to \<^verbatim>\<open>loadFile\<close>, and leaves the previewed dataset as it was. A
  file of at most that size is loaded; when the load answers \<^verbatim>\<open>null\<close>, exactly one error
  notification is emitted and the dataset is left as it was.
\<close>

theorem import_file_size_limit:
  "(file_size file > 50 * 1024 * 1024 \<longrightarrow>
      import_notifications (files_effect loadFile (Some (file # rest)) st)
        = import_notifications st @
            [\<lparr>ntype = NError, message = ''File is too big (only file less than 50 are allowed)''\<rparr>] \<and>
      loaded (files_effect loadFile (Some (file # rest)) st) = loaded st \<and>
      dataset (files_effect loadFile (Some (file # rest)) st) = dataset st) \<and>
   (file_size file \<le> 50 * 1024 * 1024 \<longrightarrow>
      loaded (files_effect loadFile (Some (file # rest)) st) = loaded st @ [file] \<and>
      (loadFile file = None \<longrightarrow>
         import_notifications (files_effect loadFile (Some (file # rest)) st)
           = import_notifications st @ [\<lparr>ntype = NError, message = ''Error reading the file''\<rparr>] \<and>
         dataset (files_effect loadFile (Some (file # rest)) st) = dataset st) \<and>
      (\<forall>d. loadFile file = Some d \<longrightarrow>
         import_notifications (files_effect loadFile (Some (file # rest)) st)
           = import_notifications st \<and>
         dataset (files_effect loadFile (Some (file # rest)) st) = Some d))"
  by (auto simp: files_effect_def maxSize_def maxSizeMo_def Let_def split: option.splits)

theorem import_file_size_limit_witness:
  "import_notifications
     (files_effect (\<lambda>f. Some (0::nat)) (Some [\<lparr>filename = ''big.csv'', file_size = 52428801\<rparr>])
        \<lparr>dataset = None, import_notifications = [], loaded = []\<rparr>)
     = [\<lparr>ntype = NError, message = ''File is too big (only file less than 50 are allowed)''\<rparr>] \<and>
   loaded
     (files_effect (\<lambda>f. Some (0::nat)) (Some [\<lparr>filename = ''big.csv'', file_size = 52428801\<rparr>])
        \<lparr>dataset = None, import_notifications = [], loaded = []\<rparr>) = [] \<and>
   dataset
     (files_effect (\<lambda>f. Some (0::nat)) (Some [\<lparr>filename = ''ok.csv'', file_size = 52428800\<rparr>])
        \<lparr>dataset = None, import_notifications = [], loaded = []\<rparr>) = Some 0 \<and>
   import_notifications
     (files_effect (\<lambda>f. (None :: nat option)) (Some [\<lparr>filename = ''bad.csv'', file_size = 10\<rparr>])
        \<lparr>dataset = None, import_notifications = [], loaded = []\<rparr>)
     = [\<lparr>ntype = NError, message = ''Error reading the file''\<rparr>]"
  using import_file_size_limit [of "\<lparr>filename = ''big.csv'', file_size = 52428801\<rparr>"
      "\<lambda>f. Some (0::nat)" "[]" "\<lparr>dataset = None, import_notifications = [], loaded = []\<rparr>"]
    import_file_size_limit [of "\<lparr>filename = ''ok.csv'', file_size = 52428800\<rparr>"
      "\<lambda>f. Some (0::nat)" "[]" "\<lparr>dataset = None, import_notifications = [], loaded = []\<rparr>"]
    import_file_size_limit [of "\<lparr>filename = ''bad.csv'', file_size = 10\<rparr>"
      "\<lambda>f. (None :: nat option)" "[]" "\<lparr>dataset = None, import_notifications = [], loaded = []\<rparr>"]
  by simp

lemma map_filter_snoc:
  "List.map_filter f (xs @ [x]) = List.map_filter f xs @ (case f x of None \<Rightarrow> [] | Some y \<Rightarrow> [y])"
  by (simp add: List.map_filter_def split: option.splits)

lemma reported_total_GetPage: "reported_total (evs @ [GetPage pi]) = reported_total evs"
  by (simp add: reported_total_def map_filter_snoc)

lemma reported_total_Refetch: "reported_total (evs @ [Refetch]) = reported_total evs"
  by (simp add: reported_total_def map_filter_snoc)

lemma reported_total_Response:
  "reported_total (evs @ [Response res]) =
     (if res_error res = None then
        (case res_data res of None \<Rightarrow> reported_total evs | Some d \<Rightarrow> page_total d)
      else reported_total evs)"
  by (simp add: reported_total_def map_filter_snoc split: option.splits)

lemma useTableElements_snoc:
  "useTableElements p s ip ips (evs @ [ev]) = table_step p s (useTableElements p s ip ips evs) ev"
  by (simp add: useTableElements_def Let_def)

lemma useTableElements_total:
  "table_total (fst (useTableElements p s ip ips evs)) = reported_total evs"
proof (induction evs rule: rev_induct)
  case Nil
  show ?case
    by (simp add: useTableElements_def initial_table_state_def reported_total_def
        List.map_filter_def Let_def)
next
  case (snoc ev evs)
  obtain st sent where run: "useTableElements p s ip ips evs = (st, sent)"
    by (cases "useTableElements p s ip ips evs")
  with snoc.IH have tot: "table_total st = reported_total evs"
    by simp
  show ?case
  proof (cases ev)
    case (GetPage pi)
    then show ?thesis
      using run tot by (simp add: useTableElements_snoc reported_total_GetPage Let_def)
  next
    case Refetch
    then show ?thesis
      using run tot by (simp add: useTableElements_snoc reported_total_Refetch)
  next
    case (Response res)
    then show ?thesis
      using run tot
      by (simp add: useTableElements_snoc reported_total_Response split: option.splits)
  qed
qed

text \<open>
  Claim C9. With page index \<open>p\<close> and page size \<open>s\<close>, every request of the table hook (after
  a change of page, or of another dependency on the same page) asks for \<open>min = (p - 1) * s\<close>
  and \<open>max = min (p * s) total\<close>, where \<open>total\<close> is the total of the last response without
  error, and \<open>0\<close> before any; so the first request of a table, for a page index from 1 and
  any page size, asks for \<open>max = 0\<close>.
\<close>

theorem table_query_range:
  assumes "truthy project_slug" and "truthy scheme"
  shows "snd (useTableElements project_slug scheme ip ips (evs @ [GetPage pi]))
           = snd (useTableElements project_slug scheme ip ips evs) @
             [\<lparr>q_min = (pageIndex pi - 1) * pageSize pi,
               q_max = min (pageIndex pi * pageSize pi) (reported_total evs)\<rparr>] \<and>
         (\<forall>p s. pageInfo (fst (useTableElements project_slug scheme ip ips evs))
                  = \<lparr>pageIndex = p, pageSize = s\<rparr> \<longrightarrow>
            snd (useTableElements project_slug scheme ip ips (evs @ [Refetch]))
              = snd (useTableElements project_slug scheme ip ips evs) @
                [\<lparr>q_min = (p - 1) * s, q_max = min (p * s) (reported_total evs)\<rparr>]) \<and>
         reported_total ([] :: 'i table_event list) = 0 \<and>
         (1 \<le> or_default ip 1 \<longrightarrow> 0 \<le> or_default ips 10 \<longrightarrow>
            snd (useTableElements project_slug scheme ip ips ([] :: 'i table_event list))
              = [\<lparr>q_min = (or_default ip 1 - 1) * or_default ips 10, q_max = 0\<rparr>])"
proof (intro conjI impI allI)
  obtain st sent where run: "useTableElements project_slug scheme ip ips evs = (st, sent)"
    by (cases "useTableElements project_slug scheme ip ips evs")
  have tot: "table_total st = reported_total evs"
    using useTableElements_total [of project_slug scheme ip ips evs] run by simp
  then show "snd (useTableElements project_slug scheme ip ips (evs @ [GetPage pi]))
           = snd (useTableElements project_slug scheme ip ips evs) @
             [\<lparr>q_min = (pageIndex pi - 1) * pageSize pi,
               q_max = min (pageIndex pi * pageSize pi) (reported_total evs)\<rparr>]"
    using assms run
    by (simp add: useTableElements_snoc getTableElements_query_def Let_def)
  show "snd (useTableElements project_slug scheme ip ips (evs @ [Refetch]))
           = snd (useTableElements project_slug scheme ip ips evs) @
             [\<lparr>q_min = (p - 1) * s, q_max = min (p * s) (reported_total evs)\<rparr>]"
    if "pageInfo (fst (useTableElements project_slug scheme ip ips evs))
          = \<lparr>pageIndex = p, pageSize = s\<rparr>" for p s
    using that assms run tot
    by (simp add: useTableElements_snoc getTableElements_query_def)
next
  show "reported_total ([] :: 'i table_event list) = 0"
    by (simp add: reported_total_def List.map_filter_def)
next
  assume "1 \<le> or_default ip 1" and "0 \<le> or_default ips 10"
  then have "0 \<le> or_default ip 1 * or_default ips 10"
    by simp
  then show "snd (useTableElements project_slug scheme ip ips ([] :: 'i table_event list))
           = [\<lparr>q_min = (or_default ip 1 - 1) * or_default ips 10, q_max = 0\<rparr>]"
    using assms
    by (simp add: useTableElements_def initial_table_state_def getTableElements_query_def
        Let_def)
qed

theorem table_query_range_witness:
  "snd (useTableElements (Some ''p'') (Some ''s'') None (Some 25) ([] :: nat table_event list))
     = [\<lparr>q_min = 0, q_max = 0\<rparr>] \<and>
   snd (useTableElements (Some ''p'') (Some ''s'') None (Some 25)
          ([page_of_57] @ [GetPage \<lparr>pageIndex = 3, pageSize = 25\<rparr>]))
     = [\<lparr>q_min = 0, q_max = 0\<rparr>, \<lparr>q_min = 50, q_max = 57\<rparr>]"
  using table_query_range [of "Some ''p''" "Some ''s''" None "Some 25" "[page_of_57]"
      "\<lparr>pageIndex = 3, pageSize = 25\<rparr>"]
  by (simp add: truthy_def or_default_def reported_total_def List.map_filter_def page_of_57_def
      useTableElements_def initial_table_state_def getTableElements_query_def Let_def)

section \<open>The async-resource hook commits the last started invocation\<close>

lemma useAsyncMemo_snoc: "useAsyncMemo (evs @ [ev]) = async_step (useAsyncMemo evs) ev"
  by (simp add: useAsyncMemo_def)

lemma last_started_eq: "last_started (useAsyncMemo evs) = started evs"
proof (induction evs rule: rev_induct)
  case Nil
  show ?case by (simp add: useAsyncMemo_def async_init_def started_def)
next
  case (snoc ev evs)
  then show ?case
    by (cases ev) (simp_all add: useAsyncMemo_snoc started_def)
qed

lemma loaded_from_latest:
  "status (useAsyncMemo evs) = Loaded v \<Longrightarrow>
   \<exists>pre post. evs = pre @ Settle (started evs) (Inr v) # post \<and> started pre = started evs"
proof (induction evs rule: rev_induct)
  case Nil
  then show ?case by (simp add: useAsyncMemo_def async_init_def)
next
  case (snoc ev evs)
  show ?case
  proof (cases ev)
    case Start
    with snoc.prems show ?thesis
      by (simp add: useAsyncMemo_snoc)
  next
    case (Settle i r)
    show ?thesis
    proof (cases "i = started evs")
      case True
      with snoc.prems Settle have "r = Inr v"
        by (simp add: useAsyncMemo_snoc last_started_eq split: sum.splits)
      with True Settle have "evs @ [ev] = evs @ Settle (started (evs @ [ev])) (Inr v) # []"
        by (simp add: started_def)
      moreover have "started evs = started (evs @ [ev])"
        using Settle by (simp add: started_def)
      ultimately show ?thesis
        by blast
    next
      case False
      with snoc.prems Settle have "status (useAsyncMemo evs) = Loaded v"
        by (simp add: useAsyncMemo_snoc last_started_eq)
      then obtain pre post where
        split: "evs = pre @ Settle (started evs) (Inr v) # post" and pre: "started pre = started evs"
        using snoc.IH by blast
      have same: "started (evs @ [ev]) = started evs"
        using Settle by (simp add: started_def)
      from split have "evs @ [ev] = pre @ Settle (started (evs @ [ev])) (Inr v) # (post @ [ev])"
        by (simp add: same)
      with pre same show ?thesis
        by metis
    qed
  qed
qed

text \<open>
  Claim C2. For every sequence of dependency changes and settlements of one async-resource
  hook, a visible value is the result of the most recently started invocation, delivered
  after the last start; the settlement of any other invocation leaves the state as it is, and
  the settlement of the most recently started one becomes visible.
\<close>

theorem async_memo_last_started_wins:
  "(getAsyncMemoData (useAsyncMemo evs) = Some v \<longrightarrow>
      (\<exists>pre post. evs = pre @ Settle (started evs) (Inr v) # post \<and> started pre = started evs)) \<and>
   (i \<noteq> started evs \<longrightarrow> useAsyncMemo (evs @ [Settle i r]) = useAsyncMemo evs) \<and>
   getAsyncMemoData (useAsyncMemo (evs @ [Settle (started evs) (Inr v)])) = Some v"
proof (intro conjI impI)
  assume "getAsyncMemoData (useAsyncMemo evs) = Some v"
  then have "status (useAsyncMemo evs) = Loaded v"
    by (simp add: getAsyncMemoData_def split: async_status.splits)
  then show "\<exists>pre post. evs = pre @ Settle (started evs) (Inr v) # post \<and> started pre = started evs"
    by (rule loaded_from_latest)
next
  assume "i \<noteq> started evs"
  then show "useAsyncMemo (evs @ [Settle i r]) = useAsyncMemo evs"
    by (simp add: useAsyncMemo_snoc last_started_eq)
next
  show "getAsyncMemoData (useAsyncMemo (evs @ [Settle (started evs) (Inr v)])) = Some v"
    by (simp add: useAsyncMemo_snoc last_started_eq getAsyncMemoData_def)
qed

theorem async_memo_last_started_wins_witness:
  "getAsyncMemoData (useAsyncMemo [Start, Start, Settle 2 (Inr ''second''), Settle 1 (Inr ''first'')])
     = Some ''second'' \<and>
   getAsyncMemoData (useAsyncMemo [Start, Start, Settle 1 (Inr ''first'')]) = None"
  using async_memo_last_started_wins [of "[Start, Start, Settle 2 (Inr ''second'')]" "''second''" 1 "Inr ''first''"]
    async_memo_last_started_wins [of "[Start, Start]" "''second''" 1 "Inr ''first''"]
  by (simp add: useAsyncMemo_def async_init_def getAsyncMemoData_def started_def)

end
